theory Spec2Isabelle
  imports Complex_Main "HOL-Library.Sublist"
begin

section \<open>JavaScript values\<close>

text \<open>
  The services receive loosely typed data: search criteria arrive as an object whose
  property values are strings, numbers or booleans, and the version token is a string.
  Strings are sequences of 8-bit code units. Numbers carry their mathematical value
  (rounding to binary64 is not part of the model) or one of the three non-finite values.
\<close>

datatype jsnum = NaN | Fin rat | PosInf | NegInf

datatype jsval = JUndef | JStr string | JNum jsnum | JBool bool

definition dq :: char where
  "dq = CHR 0x22"

definition is_digit :: "char \<Rightarrow> bool" where
  "is_digit c = (48 \<le> (of_char c :: nat) \<and> (of_char c :: nat) \<le> 57)"

text \<open>White space of the string grammar: TAB, LF, VT, FF, CR, SP and NBSP.\<close>

definition is_ws :: "char \<Rightarrow> bool" where
  "is_ws c = ((of_char c :: nat) \<in> {9, 10, 11, 12, 13, 32, 160})"

text \<open>The value of an alphanumeric digit: \<open>0-9\<close>, then \<open>a-z\<close> or \<open>A-Z\<close> for 10 to 35.\<close>

definition digit_value :: "char \<Rightarrow> nat option" where
  "digit_value c =
     (let n = (of_char c :: nat)
      in if 48 \<le> n \<and> n \<le> 57 then Some (n - 48)
         else if 97 \<le> n \<and> n \<le> 122 then Some (n - 87)
         else if 65 \<le> n \<and> n \<le> 90 then Some (n - 55)
         else None)"

definition is_radix_digit :: "nat \<Rightarrow> char \<Rightarrow> bool" where
  "is_radix_digit R c = (case digit_value c of None \<Rightarrow> False | Some d \<Rightarrow> d < R)"

definition digits_value :: "nat \<Rightarrow> string \<Rightarrow> nat" where
  "digits_value R ds = foldl (\<lambda>acc c. acc * R + (case digit_value c of None \<Rightarrow> 0 | Some d \<Rightarrow> d)) 0 ds"

definition to_lower :: "char \<Rightarrow> char" where
  "to_lower c =
     (let n = (of_char c :: nat) in if 65 \<le> n \<and> n \<le> 90 then char_of (n + 32) else c)"

definition has_hex_prefix :: "string \<Rightarrow> bool" where
  "has_hex_prefix s = (prefix ''0x'' s \<or> prefix ''0X'' s)"

text \<open>
  \<open>parseInt(string, radix)\<close>; the radix is \<open>None\<close> when the call gives none. Leading
  white space is skipped, a sign is read, a \<open>0x\<close> prefix selects radix 16 when the radix
  is absent or 16, and the longest run of digits of the radix is the value. No digit at
  all gives \<open>NaN\<close>; what follows the digits is ignored.
\<close>

definition parseInt :: "string \<Rightarrow> nat option \<Rightarrow> jsnum" where
  "parseInt str radix =
     (let s = dropWhile is_ws str;
          neg = (s \<noteq> [] \<and> hd s = CHR ''-'');
          s1 = (if s \<noteq> [] \<and> (hd s = CHR ''-'' \<or> hd s = CHR ''+'') then tl s else s);
          R0 = (case radix of None \<Rightarrow> 10 | Some r \<Rightarrow> if r = 0 then 10 else r);
          strip = (radix = None \<or> radix = Some 0 \<or> radix = Some 16);
          R = (if strip \<and> has_hex_prefix s1 then 16 else R0);
          s2 = (if strip \<and> has_hex_prefix s1 then drop 2 s1 else s1);
          ds = takeWhile (is_radix_digit R) s2
      in if R < 2 \<or> 36 < R then NaN
         else if ds = [] then NaN
         else Fin (if neg then - of_nat (digits_value R ds) else of_nat (digits_value R ds)))"

text \<open>
  \<open>Number(string)\<close>: the string is trimmed; the empty string is 0; a \<open>0x\<close>, \<open>0o\<close> or
  \<open>0b\<close> literal is an unsigned integer of that radix; otherwise the string must be a
  signed decimal literal (\<open>Infinity\<close>, or digits with an optional fraction and an
  optional exponent). Everything else is \<open>NaN\<close>.
\<close>

definition trim :: "string \<Rightarrow> string" where
  "trim s = rev (dropWhile is_ws (rev (dropWhile is_ws s)))"

definition radix_literal :: "nat \<Rightarrow> string \<Rightarrow> jsnum" where
  "radix_literal R ds =
     (if ds \<noteq> [] \<and> list_all (is_radix_digit R) ds then Fin (of_nat (digits_value R ds)) else NaN)"

definition scale10 :: "rat \<Rightarrow> int \<Rightarrow> rat" where
  "scale10 q e = (if 0 \<le> e then q * 10 ^ nat e else q / 10 ^ nat (- e))"

definition exponent_part :: "string \<Rightarrow> int option" where
  "exponent_part s =
     (if s = [] then Some 0
      else if hd s = CHR ''e'' \<or> hd s = CHR ''E'' then
        (let t = tl s;
             neg = (t \<noteq> [] \<and> hd t = CHR ''-'');
             ds = (if t \<noteq> [] \<and> (hd t = CHR ''-'' \<or> hd t = CHR ''+'') then tl t else t)
         in if ds \<noteq> [] \<and> list_all is_digit ds
            then Some (if neg then - int (digits_value 10 ds) else int (digits_value 10 ds))
            else None)
      else None)"

definition unsigned_decimal :: "string \<Rightarrow> rat option" where
  "unsigned_decimal s =
     (let ip = takeWhile is_digit s;
          r1 = dropWhile is_digit s;
          dot = (r1 \<noteq> [] \<and> hd r1 = CHR ''.'');
          fp = (if dot then takeWhile is_digit (tl r1) else []);
          r2 = (if dot then dropWhile is_digit (tl r1) else r1)
      in if ip = [] \<and> fp = [] then None
         else (case exponent_part r2 of
                 None \<Rightarrow> None
               | Some e \<Rightarrow>
                   Some (scale10 (of_nat (digits_value 10 ip)
                                  + of_nat (digits_value 10 fp) / 10 ^ length fp) e)))"

definition Number_str :: "string \<Rightarrow> jsnum" where
  "Number_str str =
     (let s = trim str
      in if s = [] then Fin 0
         else if has_hex_prefix s then radix_literal 16 (drop 2 s)
         else if prefix ''0o'' s \<or> prefix ''0O'' s then radix_literal 8 (drop 2 s)
         else if prefix ''0b'' s \<or> prefix ''0B'' s then radix_literal 2 (drop 2 s)
         else
           (let neg = (hd s = CHR ''-'');
                body = (if hd s = CHR ''-'' \<or> hd s = CHR ''+'' then tl s else s)
            in if body = ''Infinity'' then (if neg then NegInf else PosInf)
               else (case unsigned_decimal body of
                       None \<Rightarrow> NaN
                     | Some q \<Rightarrow> Fin (if neg then - q else q))))"

text \<open>\<open>typeof v === 'string'\<close>, the global \<open>isNaN\<close> (which converts its argument to a
  number first) and the comparison \<open><\<close> on numbers, false whenever a side is \<open>NaN\<close>.\<close>

definition is_string :: "jsval \<Rightarrow> bool" where
  "is_string v = (case v of JStr _ \<Rightarrow> True | _ \<Rightarrow> False)"

definition ToNumber :: "jsval \<Rightarrow> jsnum" where
  "ToNumber v =
     (case v of
        JUndef \<Rightarrow> NaN
      | JStr s \<Rightarrow> Number_str s
      | JNum n \<Rightarrow> n
      | JBool b \<Rightarrow> Fin (if b then 1 else 0))"

definition isNaN :: "jsval \<Rightarrow> bool" where
  "isNaN v = (ToNumber v = NaN)"

definition js_less :: "jsnum \<Rightarrow> jsnum \<Rightarrow> bool" where
  "js_less a b =
     (case (a, b) of
        (NaN, _) \<Rightarrow> False
      | (_, NaN) \<Rightarrow> False
      | (Fin x, Fin y) \<Rightarrow> x < y
      | (NegInf, NegInf) \<Rightarrow> False
      | (NegInf, _) \<Rightarrow> True
      | (_, NegInf) \<Rightarrow> False
      | (PosInf, _) \<Rightarrow> False
      | (_, PosInf) \<Rightarrow> True)"

text \<open>\<open>s.slice(1, -1)\<close>: the string without its first and its last code unit.\<close>

definition slice_1_m1 :: "string \<Rightarrow> string" where
  "slice_1_m1 s = butlast (tl s)"

section \<open>Entities\<close>

text \<open>
  The entity classes \<open>Serie\<close>, \<open>Titel\<close> and \<open>Cover\<close>. A property typed
  \<open>T | undefined\<close> is an option. \<open>schlagwoerter\<close> is typed
  \<open>string[] | null | undefined\<close> and keeps the three cases apart. The timestamps
  \<open>erzeugt\<close> and \<open>aktualisiert\<close> and the relation \<open>file\<close> take no part in the
  operations below and are left out of the records.
\<close>

datatype 'a nullable = Undefined | Null | Value 'a

record Titel =
  id_titel :: "int option"
  titel_titel :: "string option"
  untertitel :: "string option"

record Cover =
  id_cover :: "int option"
  beschriftung :: "string option"
  contentType :: "string option"

record Serie =
  id_serie :: "int option"
  version :: "int option"
  seriennummer :: "string option"
  rating :: "int option"
  art :: "string option"
  preis :: "rat option"
  rabatt :: "rat option"
  trailer :: "bool option"
  datum :: "string option"
  homepage :: "string option"
  schlagwoerter :: "string list nullable"
  titel :: "Titel option"
  covers :: "Cover list option"

text \<open>
  Two property names are read by the write service although the entity class does not
  declare them and no query populates them: \<open>isbn\<close> and \<open>abbildungen\<close>. Reading an
  undeclared property of an entity yields \<open>undefined\<close>.
\<close>

definition isbn :: "Serie \<Rightarrow> string option" where
  "isbn serie = None"

definition abbildungen :: "Serie \<Rightarrow> Cover list option" where
  "abbildungen serie = None"

section \<open>The relational store\<close>

text \<open>
  One table per entity, each row with its primary key; the child tables carry the
  foreign key \<open>serie_id\<close>. The column \<open>schlagwoerter\<close> is a text column
  (\<open>simple-array\<close>: the tags joined by commas) and may be \<open>NULL\<close>. The flag
  \<open>foreign_keys\<close> says whether the schema declares \<open>serie_id\<close> as a reference to
  \<open>serie\<close>, as the DDL script does: then a row of \<open>serie\<close> cannot be deleted while a
  child row refers to it.
\<close>

record serie_row =
  row_id :: int
  row_version :: int
  row_seriennummer :: string
  row_rating :: int
  row_art :: "string option"
  row_preis :: rat
  row_rabatt :: rat
  row_trailer :: bool
  row_datum :: "string option"
  row_homepage :: "string option"
  row_schlagwoerter :: "string option"

record titel_row =
  titel_row_id :: int
  titel_row_titel :: string
  titel_row_untertitel :: "string option"
  titel_row_serie_id :: int

record cover_row =
  cover_row_id :: int
  cover_row_beschriftung :: string
  cover_row_content_type :: string
  cover_row_serie_id :: int

record file_row =
  file_row_id :: int
  file_row_filename :: string
  file_row_serie_id :: int

record db =
  serie_tab :: "serie_row list"
  titel_tab :: "titel_row list"
  cover_tab :: "cover_row list"
  serie_file_tab :: "file_row list"
  foreign_keys :: bool

text \<open>The \<open>simple-array\<close> column type: an array is stored as its elements joined by
  commas; a stored text is read back by splitting at the commas, the empty text as the
  empty array.\<close>

fun simpleArrayToString :: "string list \<Rightarrow> string" where
  "simpleArrayToString [] = []"
| "simpleArrayToString [x] = x"
| "simpleArrayToString (x # y # ys) = x @ CHR '','' # simpleArrayToString (y # ys)"

fun split_comma :: "string \<Rightarrow> string \<Rightarrow> string list" where
  "split_comma acc [] = [rev acc]"
| "split_comma acc (c # cs) =
     (if c = CHR '','' then rev acc # split_comma [] cs else split_comma (c # acc) cs)"

definition stringToSimpleArray :: "string \<Rightarrow> string list" where
  "stringToSimpleArray s = (if s = [] then [] else split_comma [] s)"

definition hydrate_titel :: "titel_row \<Rightarrow> Titel" where
  "hydrate_titel t =
     \<lparr> id_titel = Some (titel_row_id t),
       titel_titel = Some (titel_row_titel t),
       untertitel = titel_row_untertitel t \<rparr>"

definition hydrate_cover :: "cover_row \<Rightarrow> Cover" where
  "hydrate_cover c =
     \<lparr> id_cover = Some (cover_row_id c),
       beschriftung = Some (cover_row_beschriftung c),
       contentType = Some (cover_row_content_type c) \<rparr>"

definition hydrate_serie :: "serie_row \<Rightarrow> Titel option \<Rightarrow> Cover list option \<Rightarrow> Serie" where
  "hydrate_serie r t cs =
     \<lparr> id_serie = Some (row_id r),
       version = Some (row_version r),
       seriennummer = Some (row_seriennummer r),
       rating = Some (row_rating r),
       art = row_art r,
       preis = Some (row_preis r),
       rabatt = Some (row_rabatt r),
       trailer = Some (row_trailer r),
       datum = row_datum r,
       homepage = row_homepage r,
       schlagwoerter =
         (case row_schlagwoerter r of None \<Rightarrow> Null | Some s \<Rightarrow> Value (stringToSimpleArray s)),
       titel = t,
       covers = cs \<rparr>"

section \<open>Errors\<close>

text \<open>
  The exceptions the services throw. \<open>NotFoundException\<close> carries its message, one
  constructor per message text of the source. \<open>QueryFailedError\<close> and
  \<open>EntityPropertyNotFoundError\<close> are the errors of the persistence library: a statement
  the database refuses, and a condition on a property the entity does not have.
\<close>

type_synonym Suchkriterien = "(string \<times> jsval) list"

datatype message =
    KeineSerieMitId "int option"
  | UngueltigeSuchkriterien
  | KeineBuecherGefunden Suchkriterien nat
  | UngueltigeSeite nat

datatype error =
    NotFoundException message
  | IsbnExistsException "string option"
  | VersionInvalidException string
  | VersionOutdatedException jsnum
  | QueryFailedError
  | EntityPropertyNotFoundError string

section \<open>Queries\<close>

text \<open>
  The clauses \<open>QueryBuilder\<close> writes, one constructor per SQL template of the source:
  \<^item> \<open>TitelLike ci p\<close>: \<open>titel.titel ilike :titel\<close> (\<open>ci\<close>) or \<open>titel.titel like :titel\<close>,
    with the parameter \<open>p\<close>;
  \<^item> \<open>RatingGe v\<close>: \<open>serie.rating >= v\<close>, the value written into the text;
  \<^item> \<open>PreisLe n\<close>: \<open>serie.preis <= n\<close>, the number written into the text;
  \<^item> \<open>SchlagwoerterLike p\<close>: \<open>serie.schlagwoerter like 'p'\<close>;
  \<^item> \<open>ReplaceSchlagwoerterLike a b p\<close>: \<open>REPLACE(serie.schlagwoerter, 'a', 'b') like 'p'\<close>;
  \<^item> \<open>PropEq k v\<close>: \<open>serie.k = :k\<close> with the parameter \<open>v\<close>.
\<close>

datatype clause =
    TitelLike bool string
  | RatingGe jsval
  | PreisLe jsnum
  | SchlagwoerterLike string
  | ReplaceSchlagwoerterLike string string string
  | PropEq string jsval

datatype join = InnerJoinTitel | LeftJoinCovers

record query =
  joins :: "join list"
  wheres :: "clause list"
  take_limit :: "nat option"
  skip_offset :: "nat option"

text \<open>
  The operations of the library's query builder that the source calls. \<open>where\<close> sets the
  condition and drops every condition set before; \<open>andWhere\<close> adds a condition to the
  ones already there.
\<close>

definition createQueryBuilder :: query where
  "createQueryBuilder = \<lparr> joins = [], wheres = [], take_limit = None, skip_offset = None \<rparr>"

definition innerJoinAndSelect :: "query \<Rightarrow> query" where
  "innerJoinAndSelect q = q\<lparr> joins := joins q @ [InnerJoinTitel] \<rparr>"

definition leftJoinAndSelect :: "query \<Rightarrow> query" where
  "leftJoinAndSelect q = q\<lparr> joins := joins q @ [LeftJoinCovers] \<rparr>"

definition where_clause :: "query \<Rightarrow> clause \<Rightarrow> query" where
  "where_clause q c = q\<lparr> wheres := [c] \<rparr>"

definition andWhere :: "query \<Rightarrow> clause \<Rightarrow> query" where
  "andWhere q c = q\<lparr> wheres := wheres q @ [c] \<rparr>"

definition take_rows :: "query \<Rightarrow> nat \<Rightarrow> query" where
  "take_rows q n = q\<lparr> take_limit := Some n \<rparr>"

definition skip_rows :: "query \<Rightarrow> nat \<Rightarrow> query" where
  "skip_rows q n = q\<lparr> skip_offset := Some n \<rparr>"

subsection \<open>What a clause selects\<close>

text \<open>\<open>LIKE\<close>: \<open>%\<close> stands for any run of characters, \<open>_\<close> for any one character, every
  other character for itself. \<open>LIKE\<close> compares with case and \<open>ILIKE\<close> without, as in
  PostgreSQL, the database of the DDL script.\<close>

fun like :: "string \<Rightarrow> string \<Rightarrow> bool" where
  "like [] [] = True"
| "like [] (c # cs) = False"
| "like (p # ps) [] = (p = CHR ''%'' \<and> like ps [])"
| "like (p # ps) (c # cs) =
     (if p = CHR ''%'' then like ps (c # cs) \<or> like (p # ps) cs
      else if p = CHR ''_'' then like ps cs
      else p = c \<and> like ps cs)"

text \<open>\<open>REPLACE(s, a, b)\<close>: every occurrence of \<open>a\<close> in \<open>s\<close>, found from the left and
  without overlap, is replaced by \<open>b\<close>. The counter is the number of characters of an
  occurrence still to be passed over.\<close>

fun replace_from :: "nat \<Rightarrow> string \<Rightarrow> string \<Rightarrow> string \<Rightarrow> string" where
  "replace_from k a b [] = []"
| "replace_from (Suc k) a b (c # cs) = replace_from k a b cs"
| "replace_from 0 a b (c # cs) =
     (if a \<noteq> [] \<and> prefix a (c # cs) then b @ replace_from (length a - 1) a b cs
      else c # replace_from 0 a b cs)"

definition REPLACE :: "string \<Rightarrow> string \<Rightarrow> string \<Rightarrow> string" where
  "REPLACE s a b = replace_from 0 a b s"

text \<open>The columns of table \<open>serie\<close> by name; a \<open>NULL\<close> and a name that is no column
  of the model give \<open>None\<close>.\<close>

definition column :: "serie_row \<Rightarrow> string \<Rightarrow> jsval option" where
  "column r k =
     (if k = ''id'' then Some (JNum (Fin (of_int (row_id r))))
      else if k = ''version'' then Some (JNum (Fin (of_int (row_version r))))
      else if k = ''seriennummer'' then Some (JStr (row_seriennummer r))
      else if k = ''rating'' then Some (JNum (Fin (of_int (row_rating r))))
      else if k = ''art'' then map_option JStr (row_art r)
      else if k = ''preis'' then Some (JNum (Fin (row_preis r)))
      else if k = ''rabatt'' then Some (JNum (Fin (row_rabatt r)))
      else if k = ''trailer'' then Some (JBool (row_trailer r))
      else if k = ''datum'' then map_option JStr (row_datum r)
      else if k = ''homepage'' then map_option JStr (row_homepage r)
      else if k = ''schlagwoerter'' then map_option JStr (row_schlagwoerter r)
      else None)"

text \<open>Equality of a column value with a parameter; a string parameter is read in the
  type of the column.\<close>

definition sql_eq :: "jsval \<Rightarrow> jsval \<Rightarrow> bool" where
  "sql_eq c v =
     (case v of
        JUndef \<Rightarrow> False
      | JStr s \<Rightarrow>
          (case c of
             JStr t \<Rightarrow> s = t
           | JNum n \<Rightarrow> n \<noteq> NaN \<and> Number_str s = n
           | JBool b \<Rightarrow> s = (if b then ''true'' else ''false'')
           | JUndef \<Rightarrow> False)
      | JNum n \<Rightarrow> n \<noteq> NaN \<and> c = JNum n
      | JBool b \<Rightarrow> c = JBool b)"

text \<open>
  Whether a row of \<open>serie\<close>, joined with its row of \<open>titel\<close>, satisfies a clause. A
  comparison with \<open>NULL\<close> selects no row, and neither does a comparison whose right-hand
  side is not a number (the texts \<open>NaN\<close> and \<open>Infinity\<close> are no SQL numbers, a boolean is
  no integer).
\<close>

fun holds :: "clause \<Rightarrow> serie_row \<Rightarrow> titel_row option \<Rightarrow> bool" where
  "holds (TitelLike ci p) r t =
     (case t of
        None \<Rightarrow> False
      | Some tr \<Rightarrow>
          (if ci then like (map to_lower p) (map to_lower (titel_row_titel tr))
           else like p (titel_row_titel tr)))"
| "holds (RatingGe v) r t =
     (case v of JNum (Fin q) \<Rightarrow> q \<le> of_int (row_rating r) | _ \<Rightarrow> False)"
| "holds (PreisLe n) r t =
     (case n of Fin q \<Rightarrow> row_preis r \<le> q | _ \<Rightarrow> False)"
| "holds (SchlagwoerterLike p) r t =
     (case row_schlagwoerter r of None \<Rightarrow> False | Some s \<Rightarrow> like p s)"
| "holds (ReplaceSchlagwoerterLike a b p) r t =
     (case row_schlagwoerter r of None \<Rightarrow> False | Some s \<Rightarrow> like p (REPLACE s a b))"
| "holds (PropEq k v) r t =
     (case column r k of None \<Rightarrow> False | Some c \<Rightarrow> sql_eq c v)"

subsection \<open>Running a query\<close>

text \<open>
  The rows of \<open>serie\<close>, each with its row of \<open>titel\<close> when the query joins the table
  (an inner join: a row of \<open>serie\<close> without a row of \<open>titel\<close> is not selected), filtered
  by all conditions of the query.
\<close>

definition joined_rows :: "query \<Rightarrow> db \<Rightarrow> (serie_row \<times> titel_row option) list" where
  "joined_rows q d =
     (if InnerJoinTitel \<in> set (joins q)
      then concat (map (\<lambda>r. map (\<lambda>t. (r, Some t))
                               (filter (\<lambda>t. titel_row_serie_id t = row_id r) (titel_tab d)))
                       (serie_tab d))
      else map (\<lambda>r. (r, None)) (serie_tab d))"

definition selected_rows :: "query \<Rightarrow> db \<Rightarrow> (serie_row \<times> titel_row option) list" where
  "selected_rows q d =
     filter (\<lambda>(r, t). list_all (\<lambda>c. holds c r t) (wheres q)) (joined_rows q d)"

definition paginate :: "query \<Rightarrow> 'a list \<Rightarrow> 'a list" where
  "paginate q xs =
     (let ys = (case skip_offset q of None \<Rightarrow> xs | Some k \<Rightarrow> drop k xs)
      in case take_limit q of None \<Rightarrow> ys | Some n \<Rightarrow> take n ys)"

definition hydrate :: "query \<Rightarrow> db \<Rightarrow> serie_row \<times> titel_row option \<Rightarrow> Serie" where
  "hydrate q d rt =
     hydrate_serie (fst rt) (map_option hydrate_titel (snd rt))
       (if LeftJoinCovers \<in> set (joins q)
        then Some (map hydrate_cover
                     (filter (\<lambda>c. cover_row_serie_id c = row_id (fst rt)) (cover_tab d)))
        else None)"

definition getMany :: "query \<Rightarrow> db \<Rightarrow> Serie list" where
  "getMany q d = map (hydrate q d) (paginate q (selected_rows q d))"

definition getOne :: "query \<Rightarrow> db \<Rightarrow> Serie option" where
  "getOne q d = (case selected_rows q d of [] \<Rightarrow> None | rt # _ \<Rightarrow> Some (hydrate q d rt))"

definition getCount :: "query \<Rightarrow> db \<Rightarrow> nat" where
  "getCount q d = length (selected_rows q d)"

section \<open>QueryBuilder\<close>

text \<open>A page request: the number of the page and its size, both always given (the
  defaults that \<open>build\<close> names for a missing number or size do not come into play). The
  size 0 asks for the query without pagination.\<close>

record Pageable =
  page_number :: nat
  page_size :: nat

text \<open>Reading a property of the criteria object: \<open>undefined\<close> when the object has no
  such key. The list gives the own properties of the object in the order in which
  \<open>Object.keys\<close> and \<open>Object.entries\<close> enumerate them.\<close>

definition get_prop :: "Suchkriterien \<Rightarrow> string \<Rightarrow> jsval" where
  "get_prop sk k = (case map_of sk k of None \<Rightarrow> JUndef | Some v \<Rightarrow> v)"

definition str_of :: "jsval \<Rightarrow> string" where
  "str_of v = (case v of JStr s \<Rightarrow> s | _ \<Rightarrow> [])"

text \<open>The rest properties of the destructuring in \<open>build\<close>.\<close>

definition restProps :: "Suchkriterien \<Rightarrow> Suchkriterien" where
  "restProps sk =
     filter (\<lambda>(k, v). k \<notin> set [''titel'', ''rating'', ''preis'', ''javascript'',
                                  ''typescript'', ''java'', ''python'']) sk"

definition buildId :: "int \<Rightarrow> bool \<Rightarrow> query" where
  "buildId ident mitCovers =
     (let queryBuilder = innerJoinAndSelect createQueryBuilder;
          queryBuilder = (if mitCovers then leftJoinAndSelect queryBuilder else queryBuilder)
      in where_clause queryBuilder (PropEq ''id'' (JNum (Fin (of_int ident)))))"

text \<open>
  The step that the keyword shortcuts and the rest properties share:
  \<open>useWhere ? queryBuilder.where(c) : queryBuilder.andWhere(c)\<close>, then
  \<open>useWhere = false\<close>. The state is the pair of \<open>queryBuilder\<close> and \<open>useWhere\<close>.
\<close>

definition where_or_andWhere :: "query \<times> bool \<Rightarrow> clause \<Rightarrow> query \<times> bool" where
  "where_or_andWhere st c =
     ((if snd st then where_clause (fst st) c else andWhere (fst st) c), False)"

text \<open>
  \<open>build\<close>, statement by statement. The first argument is \<open>typeOrmModuleOptions.type\<close>
  of the configuration. The clauses for \<open>titel\<close>, \<open>rating\<close> and \<open>preis\<close> are set with
  \<open>where\<close>; the keyword shortcuts and the rest properties go through the shared step.
\<close>

definition build :: "string \<Rightarrow> Suchkriterien \<Rightarrow> Pageable \<Rightarrow> query" where
  "build dbType sk pageable =
     (let titel = get_prop sk ''titel'';
          rating = get_prop sk ''rating'';
          preis = get_prop sk ''preis'';
          javascript = get_prop sk ''javascript'';
          typescript = get_prop sk ''typescript'';
          java = get_prop sk ''java'';
          python = get_prop sk ''python'';
          st = (innerJoinAndSelect createQueryBuilder, True);
          st = (if titel \<noteq> JUndef \<and> is_string titel
                then (where_clause (fst st)
                        (TitelLike (dbType = ''postgres'') (''%'' @ str_of titel @ ''%'')), False)
                else st);
          ratingNumber = (case rating of JStr s \<Rightarrow> JNum (parseInt s None) | v \<Rightarrow> v);
          st = (if rating \<noteq> JUndef \<and> \<not> isNaN ratingNumber
                then (where_clause (fst st) (RatingGe ratingNumber), False)
                else st);
          st = (if preis \<noteq> JUndef \<and> is_string preis
                then (where_clause (fst st) (PreisLe (Number_str (str_of preis))), False)
                else st);
          st = (if javascript = JStr ''true''
                then where_or_andWhere st (SchlagwoerterLike ''%JAVASCRIPT%'') else st);
          st = (if typescript = JStr ''true''
                then where_or_andWhere st (SchlagwoerterLike ''%TYPESCRIPT%'') else st);
          st = (if java = JStr ''true''
                then where_or_andWhere st
                       (ReplaceSchlagwoerterLike ''JAVASCRIPT'' [] ''%JAVA%'')
                else st);
          st = (if python = JStr ''true''
                then where_or_andWhere st (SchlagwoerterLike ''%PYTHON%'') else st);
          st = foldl (\<lambda>st (key, value). where_or_andWhere st (PropEq key value)) st (restProps sk);
          queryBuilder = fst st
      in if page_size pageable = 0 then queryBuilder
         else skip_rows (take_rows queryBuilder (page_size pageable))
                (page_number pageable * page_size pageable))"

text \<open>
  The statements of \<open>build\<close> in three stages, for the proofs: the state after the
  clauses for \<open>titel\<close>, \<open>rating\<close> and \<open>preis\<close>, the four keyword shortcuts, and the loop
  over the rest properties. Lemma \<open>build_stages\<close> shows that \<open>build\<close> is their composition.
\<close>

definition filter_stage :: "string \<Rightarrow> Suchkriterien \<Rightarrow> query \<times> bool" where
  "filter_stage dbType sk =
     (let titel = get_prop sk ''titel'';
          rating = get_prop sk ''rating'';
          preis = get_prop sk ''preis'';
          st = (innerJoinAndSelect createQueryBuilder, True);
          st = (if titel \<noteq> JUndef \<and> is_string titel
                then (where_clause (fst st)
                        (TitelLike (dbType = ''postgres'') (''%'' @ str_of titel @ ''%'')), False)
                else st);
          ratingNumber = (case rating of JStr s \<Rightarrow> JNum (parseInt s None) | v \<Rightarrow> v);
          st = (if rating \<noteq> JUndef \<and> \<not> isNaN ratingNumber
                then (where_clause (fst st) (RatingGe ratingNumber), False)
                else st)
      in if preis \<noteq> JUndef \<and> is_string preis
         then (where_clause (fst st) (PreisLe (Number_str (str_of preis))), False)
         else st)"

definition keyword_stage :: "Suchkriterien \<Rightarrow> query \<times> bool \<Rightarrow> query \<times> bool" where
  "keyword_stage sk st0 =
     (let st = (if get_prop sk ''javascript'' = JStr ''true''
                then where_or_andWhere st0 (SchlagwoerterLike ''%JAVASCRIPT%'') else st0);
          st = (if get_prop sk ''typescript'' = JStr ''true''
                then where_or_andWhere st (SchlagwoerterLike ''%TYPESCRIPT%'') else st);
          st = (if get_prop sk ''java'' = JStr ''true''
                then where_or_andWhere st
                       (ReplaceSchlagwoerterLike ''JAVASCRIPT'' [] ''%JAVA%'')
                else st)
      in if get_prop sk ''python'' = JStr ''true''
         then where_or_andWhere st (SchlagwoerterLike ''%PYTHON%'') else st)"

definition rest_stage :: "Suchkriterien \<Rightarrow> query \<times> bool \<Rightarrow> query \<times> bool" where
  "rest_stage sk st =
     foldl (\<lambda>st (key, value). where_or_andWhere st (PropEq key value)) st (restProps sk)"

section \<open>SerieReadService\<close>

record Slice =
  content :: "Serie list"
  totalElements :: nat

text \<open>\<open>Object.getOwnPropertyNames(new Serie())\<close>: the fields of the class in the order of
  their declaration, the arrow function \<open>toString\<close> being a field too.\<close>

definition serieProps :: "string list" where
  "serieProps =
     [''id'', ''version'', ''seriennummer'', ''rating'', ''art'', ''preis'', ''rabatt'',
      ''trailer'', ''datum'', ''homepage'', ''schlagwoerter'', ''titel'', ''covers'',
      ''file'', ''erzeugt'', ''aktualisiert'', ''toString'']"

definition normalize_schlagwoerter :: "Serie \<Rightarrow> Serie" where
  "normalize_schlagwoerter serie =
     (if schlagwoerter serie = Null then serie\<lparr> schlagwoerter := Value [] \<rparr> else serie)"

definition findById :: "int \<Rightarrow> bool \<Rightarrow> db \<Rightarrow> error + Serie" where
  "findById ident mitCovers d =
     (case getOne (buildId ident mitCovers) d of
        None \<Rightarrow> Inl (NotFoundException (KeineSerieMitId (Some ident)))
      | Some serie \<Rightarrow> Inr (normalize_schlagwoerter serie))"

definition createSlice :: "Serie list \<Rightarrow> nat \<Rightarrow> Slice" where
  "createSlice buecher n =
     \<lparr> content = map normalize_schlagwoerter buecher, totalElements = n \<rparr>"

definition checkKeys :: "string list \<Rightarrow> bool" where
  "checkKeys keys =
     foldl (\<lambda>validKeys key.
              if key \<notin> set serieProps \<and> key \<noteq> ''javascript'' \<and> key \<noteq> ''typescript''
                 \<and> key \<noteq> ''java'' \<and> key \<noteq> ''python''
              then False else validKeys)
           True keys"

definition checkEnums :: "Suchkriterien \<Rightarrow> bool" where
  "checkEnums sk =
     (let art = get_prop sk ''art''
      in art = JUndef \<or> art = JStr ''STREAM'' \<or> art = JStr ''TV'' \<or> art = JStr ''DVD'')"

text \<open>\<open>#findAll\<close> and \<open>find\<close> (here \<open>find_serie\<close>); the first argument is the database
  type that \<open>build\<close> reads from the configuration.\<close>

definition findAll :: "string \<Rightarrow> Pageable \<Rightarrow> db \<Rightarrow> error + Slice" where
  "findAll dbType pageable d =
     (let queryBuilder = build dbType [] pageable;
          buecher = getMany queryBuilder d
      in if length buecher = 0
         then Inl (NotFoundException (UngueltigeSeite (page_number pageable)))
         else Inr (createSlice buecher (getCount queryBuilder d)))"

definition find_serie :: "string \<Rightarrow> Suchkriterien option \<Rightarrow> Pageable \<Rightarrow> db \<Rightarrow> error + Slice" where
  "find_serie dbType suchkriterien pageable d =
     (case suchkriterien of
        None \<Rightarrow> findAll dbType pageable d
      | Some sk \<Rightarrow>
          (let keys = map fst sk
           in if length keys = 0 then findAll dbType pageable d
              else if \<not> checkKeys keys \<or> \<not> checkEnums sk
              then Inl (NotFoundException UngueltigeSuchkriterien)
              else
                (let queryBuilder = build dbType sk pageable;
                     buecher = getMany queryBuilder d
                 in if length buecher = 0
                    then Inl (NotFoundException
                                (KeineBuecherGefunden sk (page_number pageable)))
                    else Inr (createSlice buecher (getCount queryBuilder d)))))"

section \<open>SerieWriteService\<close>

subsection \<open>The version token\<close>

text \<open>
  \<open>VERSION_PATTERN = /^"\d{1,3}"/u\<close> and its \<open>test\<close>: at the start of the string a
  double quote, then three, two or one digits, then a double quote. Nothing is said
  about what follows.
\<close>

definition digits_then_quote :: "nat \<Rightarrow> string \<Rightarrow> bool" where
  "digits_then_quote k s = (k < length s \<and> list_all is_digit (take k s) \<and> s ! k = dq)"

definition VERSION_PATTERN_test :: "string \<Rightarrow> bool" where
  "VERSION_PATTERN_test s =
     (s \<noteq> [] \<and> hd s = dq
      \<and> (digits_then_quote 3 (tl s) \<or> digits_then_quote 2 (tl s) \<or> digits_then_quote 1 (tl s)))"

subsection \<open>The repository\<close>

text \<open>
  \<open>merge(entity, payload)\<close> of the repository: every property of the payload that is
  not \<open>undefined\<close> overwrites the property of the entity.
\<close>

definition merge_opt :: "'a option \<Rightarrow> 'a option \<Rightarrow> 'a option" where
  "merge_opt old new = (case new of None \<Rightarrow> old | Some v \<Rightarrow> Some v)"

definition repo_merge :: "Serie \<Rightarrow> Serie \<Rightarrow> Serie" where
  "repo_merge e p =
     \<lparr> id_serie = merge_opt (id_serie e) (id_serie p),
       version = merge_opt (version e) (version p),
       seriennummer = merge_opt (seriennummer e) (seriennummer p),
       rating = merge_opt (rating e) (rating p),
       art = merge_opt (art e) (art p),
       preis = merge_opt (preis e) (preis p),
       rabatt = merge_opt (rabatt e) (rabatt p),
       trailer = merge_opt (trailer e) (trailer p),
       datum = merge_opt (datum e) (datum p),
       homepage = merge_opt (homepage e) (homepage p),
       schlagwoerter = (case schlagwoerter p of Undefined \<Rightarrow> schlagwoerter e | v \<Rightarrow> v),
       titel = merge_opt (titel e) (titel p),
       covers = merge_opt (covers e) (covers p) \<rparr>"

text \<open>
  \<open>save(entity)\<close> of the repository for an entity whose id names a stored row: the
  \<open>UPDATE\<close> writes the columns the entity defines and adds one to the version column
  (\<open>@VersionColumn\<close>); the entity comes back with the new version. An entity without
  such an id would be inserted; \<open>update\<close> does not ask for that as long as the payload
  carries no id, and the model answers with \<open>QueryFailedError\<close> there.
\<close>

definition update_row :: "Serie \<Rightarrow> serie_row \<Rightarrow> serie_row" where
  "update_row e r =
     \<lparr> row_id = row_id r,
       row_version = row_version r + 1,
       row_seriennummer = (case seriennummer e of None \<Rightarrow> row_seriennummer r | Some v \<Rightarrow> v),
       row_rating = (case rating e of None \<Rightarrow> row_rating r | Some v \<Rightarrow> v),
       row_art = (case art e of None \<Rightarrow> row_art r | Some v \<Rightarrow> Some v),
       row_preis = (case preis e of None \<Rightarrow> row_preis r | Some v \<Rightarrow> v),
       row_rabatt = (case rabatt e of None \<Rightarrow> row_rabatt r | Some v \<Rightarrow> v),
       row_trailer = (case trailer e of None \<Rightarrow> row_trailer r | Some v \<Rightarrow> v),
       row_datum = (case datum e of None \<Rightarrow> row_datum r | Some v \<Rightarrow> Some v),
       row_homepage = (case homepage e of None \<Rightarrow> row_homepage r | Some v \<Rightarrow> Some v),
       row_schlagwoerter =
         (case schlagwoerter e of
            Undefined \<Rightarrow> row_schlagwoerter r
          | Null \<Rightarrow> None
          | Value xs \<Rightarrow> Some (simpleArrayToString xs)) \<rparr>"

definition repo_save :: "Serie \<Rightarrow> db \<Rightarrow> error + Serie \<times> db" where
  "repo_save e d =
     (case id_serie e of
        None \<Rightarrow> Inl QueryFailedError
      | Some i \<Rightarrow>
          (case List.find (\<lambda>r. row_id r = i) (serie_tab d) of
             None \<Rightarrow> Inl QueryFailedError
           | Some r \<Rightarrow>
               Inr (e\<lparr> version := Some (row_version r + 1) \<rparr>,
                    d\<lparr> serie_tab :=
                         map (\<lambda>x. if row_id x = i then update_row e x else x) (serie_tab d) \<rparr>)))"

text \<open>
  \<open>existsBy(where)\<close> of the repository: a condition whose value is \<open>undefined\<close> is left
  out, a condition on a name that is no column is refused, and the answer is whether
  some row satisfies every condition that is left.
\<close>

definition column_names :: "string list" where
  "column_names =
     [''id'', ''version'', ''seriennummer'', ''rating'', ''art'', ''preis'', ''rabatt'',
      ''trailer'', ''datum'', ''homepage'', ''schlagwoerter'']"

definition repo_existsBy :: "(string \<times> jsval) list \<Rightarrow> db \<Rightarrow> error + bool" where
  "repo_existsBy wh d =
     (let conds = filter (\<lambda>(k, v). v \<noteq> JUndef) wh
      in case List.find (\<lambda>(k, v). k \<notin> set column_names) conds of
           Some (k, v) \<Rightarrow> Inl (EntityPropertyNotFoundError k)
         | None \<Rightarrow>
             Inr (list_ex (\<lambda>r. list_all (\<lambda>(k, v). holds (PropEq k v) r None) conds)
                          (serie_tab d)))"

text \<open>
  \<open>delete(Entity, id)\<close> of the transactional manager removes the row with that primary
  key and reports the number of rows removed. With the foreign keys declared, a row of
  \<open>serie\<close> that a child row refers to cannot be removed.
\<close>

datatype table = TitelTable | CoverTable | SerieTable

datatype stmt = Delete table "int option"

definition referenced :: "db \<Rightarrow> int \<Rightarrow> bool" where
  "referenced d i =
     (list_ex (\<lambda>t. titel_row_serie_id t = i) (titel_tab d)
      \<or> list_ex (\<lambda>c. cover_row_serie_id c = i) (cover_tab d)
      \<or> list_ex (\<lambda>f. file_row_serie_id f = i) (serie_file_tab d))"

fun exec_stmt :: "stmt \<Rightarrow> db \<Rightarrow> error + db \<times> nat" where
  "exec_stmt (Delete tab None) d = Inl QueryFailedError"
| "exec_stmt (Delete TitelTable (Some i)) d =
     Inr (d\<lparr> titel_tab := filter (\<lambda>t. titel_row_id t \<noteq> i) (titel_tab d) \<rparr>,
          length (filter (\<lambda>t. titel_row_id t = i) (titel_tab d)))"
| "exec_stmt (Delete CoverTable (Some i)) d =
     Inr (d\<lparr> cover_tab := filter (\<lambda>c. cover_row_id c \<noteq> i) (cover_tab d) \<rparr>,
          length (filter (\<lambda>c. cover_row_id c = i) (cover_tab d)))"
| "exec_stmt (Delete SerieTable (Some i)) d =
     (if foreign_keys d \<and> list_ex (\<lambda>r. row_id r = i) (serie_tab d) \<and> referenced d i
      then Inl QueryFailedError
      else Inr (d\<lparr> serie_tab := filter (\<lambda>r. row_id r \<noteq> i) (serie_tab d) \<rparr>,
                length (filter (\<lambda>r. row_id r = i) (serie_tab d))))"

text \<open>
  A transaction runs its statements in order; the first failure ends it, and the caller
  is left with the store as it was. The result of the last statement is kept, as
  \<open>deleteResult\<close> is in the source.
\<close>

fun run_stmts :: "stmt list \<Rightarrow> db \<times> nat option \<Rightarrow> error + db \<times> nat option" where
  "run_stmts [] st = Inr st"
| "run_stmts (x # xs) st =
     (case exec_stmt x (fst st) of
        Inl e \<Rightarrow> Inl e
      | Inr (d', n) \<Rightarrow> run_stmts xs (d', Some n))"

definition transaction :: "stmt list \<Rightarrow> db \<Rightarrow> error + db \<times> nat option" where
  "transaction stmts d = run_stmts stmts (d, None)"

subsection \<open>The operations\<close>

definition validateCreate :: "Serie \<Rightarrow> db \<Rightarrow> error + unit" where
  "validateCreate serie d =
     (case repo_existsBy
             [(''isbn'', (case isbn serie of None \<Rightarrow> JUndef | Some s \<Rightarrow> JStr s))] d of
        Inl e \<Rightarrow> Inl e
      | Inr found \<Rightarrow> if found then Inl (IsbnExistsException (isbn serie)) else Inr ())"

definition validateUpdate :: "Serie \<Rightarrow> int \<Rightarrow> string \<Rightarrow> db \<Rightarrow> error + Serie" where
  "validateUpdate serie ident versionStr d =
     (if \<not> VERSION_PATTERN_test versionStr then Inl (VersionInvalidException versionStr)
      else
        (let version = parseInt (slice_1_m1 versionStr) (Some 10)
         in case findById ident False d of
              Inl e \<Rightarrow> Inl e
            | Inr serieDb \<Rightarrow>
                (let versionDb = (case Serie.version serieDb of
                                    None \<Rightarrow> NaN | Some v \<Rightarrow> Fin (of_int v))
                 in if js_less version versionDb then Inl (VersionOutdatedException version)
                    else Inr serieDb)))"

text \<open>\<open>update\<close> returns the version of the saved entity and leaves the store as \<open>save\<close>
  left it; every failure leaves the store as it was.\<close>

definition update_serie :: "int option \<Rightarrow> Serie \<Rightarrow> string \<Rightarrow> db \<Rightarrow> (error + int option) \<times> db" where
  "update_serie ident serie versionStr d =
     (case ident of
        None \<Rightarrow> (Inl (NotFoundException (KeineSerieMitId None)), d)
      | Some i \<Rightarrow>
          (case validateUpdate serie i versionStr d of
             Inl e \<Rightarrow> (Inl e, d)
           | Inr serieNeu \<Rightarrow>
               (let merged = repo_merge serieNeu serie
                in case repo_save merged d of
                     Inl e \<Rightarrow> (Inl e, d)
                   | Inr (updated, d') \<Rightarrow> (Inr (Serie.version updated), d'))))"

text \<open>
  \<open>delete\<close>: \<open>findById\<close> is called with \<open>id\<close> and \<open>mitAbbildungen\<close>; its parameter
  \<open>mitCovers\<close> is not given and takes its default \<open>false\<close>. The transaction deletes the
  row of \<open>titel\<close> when the loaded entity has one, one row per element of
  \<open>serie.abbildungen ?? []\<close>, and the row of \<open>serie\<close>.
\<close>

definition delete_stmts :: "Serie \<Rightarrow> int \<Rightarrow> stmt list" where
  "delete_stmts serie ident =
     (case (case titel serie of None \<Rightarrow> None | Some t \<Rightarrow> id_titel t) of
        None \<Rightarrow> []
      | Some titelId \<Rightarrow> [Delete TitelTable (Some titelId)])
     @ map (\<lambda>abbildung. Delete CoverTable (id_cover abbildung))
           (case abbildungen serie of None \<Rightarrow> [] | Some xs \<Rightarrow> xs)
     @ [Delete SerieTable (Some ident)]"

definition delete_serie :: "int \<Rightarrow> db \<Rightarrow> (error + bool) \<times> db" where
  "delete_serie ident d =
     (case findById ident False d of
        Inl e \<Rightarrow> (Inl e, d)
      | Inr serie \<Rightarrow>
          (case transaction (delete_stmts serie ident) d of
             Inl e \<Rightarrow> (Inl e, d)
           | Inr (d', deleteResult) \<Rightarrow>
               ((case deleteResult of None \<Rightarrow> Inr False | Some affected \<Rightarrow> Inr (0 < affected)),
                d')))"

section \<open>The specification's words\<close>

text \<open>
  The shape the specification gives the version token, a quoted decimal integer: a
  double quote, one or more decimal digits, a double quote, and nothing else. The second
  predicate says that a string begins with a double quote, a run of one to three digits
  and a double quote.
\<close>

definition is_quoted_decimal :: "string \<Rightarrow> bool" where
  "is_quoted_decimal s =
     (2 < length s \<and> hd s = dq \<and> last s = dq \<and> list_all is_digit (butlast (tl s)))"

definition begins_with_quoted_digits :: "string \<Rightarrow> bool" where
  "begins_with_quoted_digits s =
     (let ds = takeWhile is_digit (tl s)
      in s \<noteq> [] \<and> hd s = dq \<and> 1 \<le> length ds \<and> length ds \<le> 3
         \<and> length ds < length (tl s) \<and> tl s ! length ds = dq)"

text \<open>The keys \<open>find\<close> recognizes: the property names of the entity and the four
  keyword shortcuts.\<close>

definition recognized :: "string \<Rightarrow> bool" where
  "recognized key =
     (key \<in> set serieProps \<or> key \<in> {''javascript'', ''typescript'', ''java'', ''python''})"

section \<open>A small store\<close>

text \<open>
  Two series, \<open>Alpha\<close> with rating 5 at version 2 and \<open>Zeta\<close> with rating 1 at
  version 0, each with its title, \<open>Alpha\<close> with one cover; and a payload as the front
  ends build it for \<open>update\<close> (no id, no version, no relations).
\<close>

definition serie_alpha :: serie_row where
  "serie_alpha =
     \<lparr> row_id = 1, row_version = 2, row_seriennummer = ''SER-000001'', row_rating = 5,
       row_art = Some ''STREAM'', row_preis = 45 / 2, row_rabatt = 1 / 10, row_trailer = True,
       row_datum = Some ''2022-02-01'', row_homepage = None,
       row_schlagwoerter = Some ''JAVA,JAVASCRIPT'' \<rparr>"

definition serie_zeta :: serie_row where
  "serie_zeta =
     \<lparr> row_id = 2, row_version = 0, row_seriennummer = ''SER-000002'', row_rating = 1,
       row_art = Some ''TV'', row_preis = 10, row_rabatt = 0, row_trailer = False,
       row_datum = None, row_homepage = None, row_schlagwoerter = None \<rparr>"

definition titel_alpha :: titel_row where
  "titel_alpha =
     \<lparr> titel_row_id = 10, titel_row_titel = ''Alpha'', titel_row_untertitel = None,
       titel_row_serie_id = 1 \<rparr>"

definition titel_zeta :: titel_row where
  "titel_zeta =
     \<lparr> titel_row_id = 20, titel_row_titel = ''Zeta'', titel_row_untertitel = None,
       titel_row_serie_id = 2 \<rparr>"

definition cover_alpha :: cover_row where
  "cover_alpha =
     \<lparr> cover_row_id = 100, cover_row_beschriftung = ''Abb. 1'',
       cover_row_content_type = ''img/png'', cover_row_serie_id = 1 \<rparr>"

definition corpus :: db where
  "corpus =
     \<lparr> serie_tab = [serie_alpha, serie_zeta], titel_tab = [titel_alpha, titel_zeta],
       cover_tab = [cover_alpha], serie_file_tab = [], foreign_keys = True \<rparr>"

definition payload :: Serie where
  "payload =
     \<lparr> id_serie = None, version = None, seriennummer = Some ''SER-000003'', rating = Some 4,
       art = Some ''DVD'', preis = Some (333 / 10), rabatt = None, trailer = None, datum = None,
       homepage = Some ''https://acme.de'', schlagwoerter = Value [''JAVA''], titel = None,
       covers = None \<rparr>"

definition quoted :: "string \<Rightarrow> string" where
  "quoted s = dq # s @ [dq]"

definition pageable5 :: Pageable where
  "pageable5 = \<lparr> page_number = 0, page_size = 5 \<rparr>"

definition entity_zeta :: Serie where
  "entity_zeta = normalize_schlagwoerter (hydrate (buildId 2 False) corpus (serie_zeta, Some titel_zeta))"

definition entity_alpha :: Serie where
  "entity_alpha = normalize_schlagwoerter (hydrate (buildId 1 False) corpus (serie_alpha, Some titel_alpha))"

text \<open>A store for the keyword shortcuts: \<open>Alpha\<close> is tagged \<open>JAVA\<close> and \<open>JAVASCRIPT\<close>,
  \<open>Omega\<close> is tagged \<open>JAVASCRIPT\<close> only. \<open>java_clause\<close> is the clause of the shortcut
  \<open>java\<close>.\<close>

definition serie_omega :: serie_row where
  "serie_omega =
     \<lparr> row_id = 3, row_version = 0, row_seriennummer = ''SER-000003'', row_rating = 4,
       row_art = Some ''DVD'', row_preis = 30, row_rabatt = 0, row_trailer = False,
       row_datum = None, row_homepage = None, row_schlagwoerter = Some ''JAVASCRIPT'' \<rparr>"

definition titel_omega :: titel_row where
  "titel_omega =
     \<lparr> titel_row_id = 30, titel_row_titel = ''Omega'', titel_row_untertitel = None,
       titel_row_serie_id = 3 \<rparr>"

definition keyword_store :: db where
  "keyword_store =
     \<lparr> serie_tab = [serie_alpha, serie_omega], titel_tab = [titel_alpha, titel_omega],
       cover_tab = [], serie_file_tab = [], foreign_keys = True \<rparr>"

definition java_clause :: clause where
  "java_clause = ReplaceSchlagwoerterLike ''JAVASCRIPT'' [] ''%JAVA%''"

text \<open>What \<open>find\<close> returns for the one criterion \<open>java\<close> on that store.\<close>

definition java_slice :: Slice where
  "java_slice =
     createSlice (getMany (build ''postgres'' [(''java'', JStr ''true'')] pageable5) keyword_store) 1"

section \<open>The version token of \<open>update\<close>\<close>

lemma dq_not_digit: "\<not> is_digit dq"
  by (simp add: is_digit_def dq_def)

lemma digits_then_quote_takeWhile:
  "digits_then_quote k t \<longleftrightarrow>
     length (takeWhile is_digit t) = k \<and> k < length t \<and> t ! k = dq"
proof
  assume h: "digits_then_quote k t"
  then have k: "k < length t" and all: "list_all is_digit (take k t)" and q: "t ! k = dq"
    by (simp_all add: digits_then_quote_def)
  have "takeWhile is_digit t = take k t"
  proof (rule takeWhile_eq_take_P_nth)
    fix i assume "i < k" "i < length t"
    then have "t ! i \<in> set (take k t)"
      by (metis in_set_conv_nth length_take min_less_iff_conj nth_take)
    with all show "is_digit (t ! i)" by (simp add: list_all_iff)
  next
    assume "k < length t"
    show "\<not> is_digit (t ! k)" using q dq_not_digit by simp
  qed
  with k q show "length (takeWhile is_digit t) = k \<and> k < length t \<and> t ! k = dq"
    by simp
next
  assume h: "length (takeWhile is_digit t) = k \<and> k < length t \<and> t ! k = dq"
  have "take k t = takeWhile is_digit t"
    using h takeWhile_eq_take[of is_digit t] by simp
  then have "list_all is_digit (take k t)"
    by (metis list_all_iff set_takeWhileD)
  with h show "digits_then_quote k t" by (simp add: digits_then_quote_def)
qed

lemma one_to_three: "(n = 3 \<and> P 3) \<or> (n = 2 \<and> P 2) \<or> (n = 1 \<and> P 1) \<longleftrightarrow> 1 \<le> n \<and> n \<le> 3 \<and> P (n::nat)"
proof -
  have "1 \<le> n \<and> n \<le> 3 \<longleftrightarrow> n = 1 \<or> n = 2 \<or> n = 3" by arith
  then show ?thesis by blast
qed

lemma VERSION_PATTERN_test_iff:
  "VERSION_PATTERN_test s \<longleftrightarrow> begins_with_quoted_digits s"
proof -
  define n where "n = length (takeWhile is_digit (tl s))"
  have "VERSION_PATTERN_test s \<longleftrightarrow>
          s \<noteq> [] \<and> hd s = dq
          \<and> ((n = 3 \<and> 3 < length (tl s) \<and> tl s ! 3 = dq)
             \<or> (n = 2 \<and> 2 < length (tl s) \<and> tl s ! 2 = dq)
             \<or> (n = 1 \<and> 1 < length (tl s) \<and> tl s ! 1 = dq))"
    unfolding VERSION_PATTERN_test_def digits_then_quote_takeWhile n_def by simp
  also have "\<dots> \<longleftrightarrow> s \<noteq> [] \<and> hd s = dq
          \<and> (1 \<le> n \<and> n \<le> 3 \<and> n < length (tl s) \<and> tl s ! n = dq)"
    using one_to_three [of n "\<lambda>k. k < length (tl s) \<and> tl s ! k = dq"] by simp
  also have "\<dots> \<longleftrightarrow> begins_with_quoted_digits s"
    unfolding begins_with_quoted_digits_def Let_def n_def by blast
  finally show ?thesis .
qed

lemma quoted_decimal_matches:
  assumes "is_quoted_decimal s" and "length s \<le> 5"
  shows "VERSION_PATTERN_test s"
proof -
  let ?t = "tl s" and ?k = "length s - 2"
  from assms have len: "2 < length s" and h: "hd s = dq" and l: "last s = dq"
    and all: "list_all is_digit (butlast (tl s))"
    by (simp_all add: is_quoted_decimal_def)
  have ne: "s \<noteq> []" using len by auto
  have k: "?k < length ?t" using len by simp
  have keq: "?k = length ?t - 1" by simp
  have take: "take ?k ?t = butlast ?t"
    unfolding keq by (rule butlast_conv_take [symmetric])
  have tne: "?t \<noteq> []" using len by (cases s) auto
  then have "?t ! ?k = last ?t"
    unfolding keq by (rule last_conv_nth [symmetric])
  also have "\<dots> = last s" using tne by (cases s) auto
  finally have q: "?t ! ?k = dq" using l by simp
  have dtq: "digits_then_quote ?k ?t"
    using k all take q by (simp add: digits_then_quote_def)
  have "?k = 1 \<or> ?k = 2 \<or> ?k = 3" using len assms(2) by arith
  with dtq ne h show ?thesis
    unfolding VERSION_PATTERN_test_def by metis
qed

lemma findById_error:
  "findById i mc d = Inl e \<Longrightarrow> e = NotFoundException (KeineSerieMitId (Some i))"
  by (auto simp: findById_def split: option.splits)

lemma validateUpdate_matching_not_invalid:
  "VERSION_PATTERN_test tok \<Longrightarrow> validateUpdate p i tok d \<noteq> Inl (VersionInvalidException v)"
  by (auto simp: validateUpdate_def Let_def split: sum.splits dest: findById_error)

text \<open>
  C6, as the code has it. A version token that is a quoted decimal integer of one to
  three digits is accepted: \<open>update\<close>'s validation does not fail with
  \<open>VersionInvalidException\<close>. A token that does not begin with a double quote, one to
  three digits and a double quote fails with \<open>VersionInvalidException\<close>, whatever the id,
  the payload and the store are.
\<close>

theorem version_token_shape:
  "(is_quoted_decimal tok \<and> length tok \<le> 5 \<longrightarrow>
      (\<forall>v. validateUpdate p i tok d \<noteq> Inl (VersionInvalidException v)))
   \<and> (\<not> begins_with_quoted_digits tok \<longrightarrow>
        validateUpdate p i tok d = Inl (VersionInvalidException tok))"
proof (intro conjI impI allI)
  fix v assume "is_quoted_decimal tok \<and> length tok \<le> 5"
  then have "VERSION_PATTERN_test tok" by (simp add: quoted_decimal_matches)
  then show "validateUpdate p i tok d \<noteq> Inl (VersionInvalidException v)"
    by (rule validateUpdate_matching_not_invalid)
next
  assume "\<not> begins_with_quoted_digits tok"
  then have "\<not> VERSION_PATTERN_test tok" by (simp add: VERSION_PATTERN_test_iff)
  then show "validateUpdate p i tok d = Inl (VersionInvalidException tok)"
    by (simp add: validateUpdate_def)
qed

theorem version_token_shape_witness:
  "is_quoted_decimal (quoted ''3'') \<and> length (quoted ''3'') \<le> 5
   \<and> (\<forall>v. validateUpdate payload 1 (quoted ''3'') corpus \<noteq> Inl (VersionInvalidException v))
   \<and> \<not> begins_with_quoted_digits ''3''
   \<and> validateUpdate payload 1 ''3'' corpus = Inl (VersionInvalidException ''3'')"
proof -
  have a: "is_quoted_decimal (quoted ''3'') \<and> length (quoted ''3'') \<le> 5"
    by (simp add: is_quoted_decimal_def quoted_def is_digit_def)
  have b: "\<not> begins_with_quoted_digits ''3''"
    by (simp add: begins_with_quoted_digits_def dq_def)
  show ?thesis
    using a b version_token_shape [of "quoted ''3''" payload 1 corpus]
      version_token_shape [of "''3''" payload 1 corpus]
    by blast
qed

text \<open>The token \<open>"1234"\<close> is a quoted decimal integer and is rejected.\<close>

theorem version_token_four_digits_counterexample:
  "is_quoted_decimal (quoted ''1234'')
   \<and> validateUpdate payload 1 (quoted ''1234'') corpus
       = Inl (VersionInvalidException (quoted ''1234''))"
  by (simp add: is_quoted_decimal_def quoted_def is_digit_def validateUpdate_def
      VERSION_PATTERN_test_def digits_then_quote_def dq_def)

section \<open>Reading: \<open>findById\<close> and the keyword list\<close>

lemma holds_id_eq:
  "holds (PropEq ''id'' (JNum (Fin (of_int i)))) r t \<longleftrightarrow> row_id r = i"
  by (simp add: column_def sql_eq_def)

lemma joins_buildId [simp]: "InnerJoinTitel \<in> set (joins (buildId i mc))"
  by (simp add: buildId_def Let_def where_clause_def innerJoinAndSelect_def
      leftJoinAndSelect_def createQueryBuilder_def)

lemma wheres_buildId [simp]:
  "wheres (buildId i mc) = [PropEq ''id'' (JNum (Fin (of_int i)))]"
  by (simp add: buildId_def Let_def where_clause_def)

lemma selected_rows_buildId:
  "set (selected_rows (buildId i mc) d) =
     {(r, Some t) | r t. r \<in> set (serie_tab d) \<and> t \<in> set (titel_tab d)
                         \<and> titel_row_serie_id t = row_id r \<and> row_id r = i}"
  by (auto simp: selected_rows_def joined_rows_def column_def sql_eq_def)

lemma getOne_Some:
  "getOne q d = Some s \<Longrightarrow> \<exists>rt \<in> set (selected_rows q d). s = hydrate q d rt"
  by (auto simp: getOne_def split: list.splits)

lemma getOne_None: "getOne q d = None \<longleftrightarrow> selected_rows q d = []"
  by (auto simp: getOne_def split: list.splits)

lemma findById_Inr:
  "findById i mc d = Inr s \<Longrightarrow>
     \<exists>r t. r \<in> set (serie_tab d) \<and> t \<in> set (titel_tab d)
           \<and> titel_row_serie_id t = row_id r \<and> row_id r = i
           \<and> s = normalize_schlagwoerter (hydrate (buildId i mc) d (r, Some t))"
proof -
  assume "findById i mc d = Inr s"
  then obtain s0 where g: "getOne (buildId i mc) d = Some s0" and s: "s = normalize_schlagwoerter s0"
    by (auto simp: findById_def split: option.splits)
  from getOne_Some [OF g] obtain rt where
    rt: "rt \<in> set (selected_rows (buildId i mc) d)" and s0: "s0 = hydrate (buildId i mc) d rt"
    by blast
  from rt show ?thesis unfolding selected_rows_buildId using s s0 by blast
qed

lemma findById_found:
  assumes "r \<in> set (serie_tab d)" and "t \<in> set (titel_tab d)"
    and "titel_row_serie_id t = row_id r"
  shows "\<exists>s. findById (row_id r) mc d = Inr s"
proof -
  have "(r, Some t) \<in> set (selected_rows (buildId (row_id r) mc) d)"
    unfolding selected_rows_buildId using assms by blast
  then have "selected_rows (buildId (row_id r) mc) d \<noteq> []" by auto
  then have "getOne (buildId (row_id r) mc) d \<noteq> None" by (simp add: getOne_None)
  then show ?thesis by (auto simp: findById_def split: option.splits)
qed

lemma schlagwoerter_hydrate:
  "schlagwoerter (hydrate q d rt) =
     (case row_schlagwoerter (fst rt) of None \<Rightarrow> Null | Some s \<Rightarrow> Value (stringToSimpleArray s))"
  by (simp add: hydrate_def hydrate_serie_def)

lemma schlagwoerter_normalize_hydrate:
  "schlagwoerter (normalize_schlagwoerter (hydrate q d rt)) =
     (case row_schlagwoerter (fst rt) of None \<Rightarrow> Value [] | Some s \<Rightarrow> Value (stringToSimpleArray s))"
  by (simp add: normalize_schlagwoerter_def schlagwoerter_hydrate split: option.splits)

lemma row_id_unique:
  "distinct (map row_id rs) \<Longrightarrow> r \<in> set rs \<Longrightarrow> r' \<in> set rs \<Longrightarrow> row_id r = row_id r' \<Longrightarrow> r = r'"
  by (meson distinct_map inj_on_eq_iff)

lemma content_normalized:
  "s \<in> set (content (createSlice (getMany q d) n)) \<Longrightarrow> \<exists>xs. schlagwoerter s = Value xs"
  by (auto simp: createSlice_def getMany_def schlagwoerter_normalize_hydrate split: option.splits)

lemma find_serie_Inr:
  "find_serie t sk pg d = Inr sl \<Longrightarrow> \<exists>q n. sl = createSlice (getMany q d) n"
  by (auto simp: find_serie_def findAll_def Let_def split: option.splits if_splits)

text \<open>
  C9. A record that \<open>findById\<close> returns carries a keyword list, never \<open>null\<close> and never
  \<open>undefined\<close>; when the column is \<open>NULL\<close> in the row with that id, the list is empty.
  \<open>findById\<close> does return a record for the id of every stored row that has its row of
  \<open>titel\<close>. Every record in the content of a result of \<open>find\<close> carries a keyword list
  as well.
\<close>

theorem keywords_never_null:
  "(findById i mc d = Inr s \<longrightarrow> (\<exists>xs. schlagwoerter s = Value xs))
   \<and> (findById i mc d = Inr s \<and> distinct (map row_id (serie_tab d)) \<and> r \<in> set (serie_tab d)
        \<and> row_id r = i \<and> row_schlagwoerter r = None \<longrightarrow> schlagwoerter s = Value [])
   \<and> (r \<in> set (serie_tab d) \<and> t \<in> set (titel_tab d) \<and> titel_row_serie_id t = row_id r \<longrightarrow>
        (\<exists>s'. findById (row_id r) mc d = Inr s'))
   \<and> (find_serie dbType sk pg d = Inr sl \<longrightarrow>
        (\<forall>s' \<in> set (content sl). \<exists>xs. schlagwoerter s' = Value xs))"
proof (intro conjI impI)
  assume "findById i mc d = Inr s"
  from findById_Inr [OF this] show "\<exists>xs. schlagwoerter s = Value xs"
    by (auto simp: schlagwoerter_normalize_hydrate split: option.splits)
next
  assume h: "findById i mc d = Inr s \<and> distinct (map row_id (serie_tab d)) \<and> r \<in> set (serie_tab d)
        \<and> row_id r = i \<and> row_schlagwoerter r = None"
  then obtain r' t' where r': "r' \<in> set (serie_tab d)" "row_id r' = i"
    and s: "s = normalize_schlagwoerter (hydrate (buildId i mc) d (r', Some t'))"
    using findById_Inr by blast
  have "r' = r" using h r' row_id_unique by metis
  with s h show "schlagwoerter s = Value []"
    by (simp add: schlagwoerter_normalize_hydrate)
next
  assume "r \<in> set (serie_tab d) \<and> t \<in> set (titel_tab d) \<and> titel_row_serie_id t = row_id r"
  then show "\<exists>s'. findById (row_id r) mc d = Inr s'" using findById_found by blast
next
  assume "find_serie dbType sk pg d = Inr sl"
  from find_serie_Inr [OF this] show "\<forall>s' \<in> set (content sl). \<exists>xs. schlagwoerter s' = Value xs"
    using content_normalized by blast
qed

theorem keywords_never_null_witness:
  "findById 2 False corpus = Inr entity_zeta
   \<and> distinct (map row_id (serie_tab corpus)) \<and> serie_zeta \<in> set (serie_tab corpus)
   \<and> titel_zeta \<in> set (titel_tab corpus) \<and> titel_row_serie_id titel_zeta = row_id serie_zeta
   \<and> row_id serie_zeta = 2 \<and> row_schlagwoerter serie_zeta = None
   \<and> find_serie ''postgres'' None pageable5 corpus
       = Inr (createSlice (getMany (build ''postgres'' [] pageable5) corpus) 2)
   \<and> schlagwoerter entity_zeta = Value []
   \<and> (\<exists>s'. findById (row_id serie_zeta) False corpus = Inr s')
   \<and> list_all (\<lambda>s'. \<exists>xs. schlagwoerter s' = Value xs)
        (content (createSlice (getMany (build ''postgres'' [] pageable5) corpus) 2))"
proof -
  have a: "findById 2 False corpus = Inr entity_zeta" by code_simp
  have b: "distinct (map row_id (serie_tab corpus))" by code_simp
  have c: "serie_zeta \<in> set (serie_tab corpus)" "titel_zeta \<in> set (titel_tab corpus)"
    "titel_row_serie_id titel_zeta = row_id serie_zeta" "row_id serie_zeta = 2"
    "row_schlagwoerter serie_zeta = None"
    by (simp_all add: corpus_def serie_zeta_def titel_zeta_def)
  have e: "find_serie ''postgres'' None pageable5 corpus
       = Inr (createSlice (getMany (build ''postgres'' [] pageable5) corpus) 2)" by code_simp
  show ?thesis
    using a b c e
      keywords_never_null [of 2 False corpus entity_zeta serie_zeta titel_zeta "''postgres''" None
        pageable5 "createSlice (getMany (build ''postgres'' [] pageable5) corpus) 2"]
    unfolding list_all_iff by blast
qed

section \<open>Reading: criteria that \<open>find\<close> refuses\<close>

lemma checkKeys_foldl:
  "foldl (\<lambda>validKeys key.
              if key \<notin> set serieProps \<and> key \<noteq> ''javascript'' \<and> key \<noteq> ''typescript''
                 \<and> key \<noteq> ''java'' \<and> key \<noteq> ''python''
              then False else validKeys) b keys
   = (b \<and> list_all recognized keys)"
  by (induction keys arbitrary: b) (auto simp: recognized_def)

lemma checkKeys_iff: "checkKeys keys \<longleftrightarrow> list_all recognized keys"
  unfolding checkKeys_def checkKeys_foldl by simp

text \<open>
  C2, as the code has it. For a criteria object that is not empty and has a key that is
  not recognized, or whose \<open>art\<close> is none of \<open>STREAM\<close>, \<open>TV\<close> and \<open>DVD\<close>, \<open>find\<close> throws
  \<open>NotFoundException\<close> with the message \<open>Ungueltige Suchkriterien\<close>, whatever the other
  keys, the page and the store are: no query decides the outcome.
\<close>

theorem find_invalid_criteria:
  assumes "sk \<noteq> []"
    and "(\<exists>key \<in> set (map fst sk). \<not> recognized key)
         \<or> get_prop sk ''art'' \<notin> {JUndef, JStr ''STREAM'', JStr ''TV'', JStr ''DVD''}"
  shows "find_serie dbType (Some sk) pageable d = Inl (NotFoundException UngueltigeSuchkriterien)"
proof -
  from assms(2) have "\<not> checkKeys (map fst sk) \<or> \<not> checkEnums sk"
    by (auto simp: checkKeys_iff list_all_iff checkEnums_def Let_def)
  with assms(1) show ?thesis
    by (simp add: find_serie_def Let_def)
qed

theorem find_invalid_criteria_witness:
  "[(''titel'', JStr ''a''), (''foo'', JStr ''bar'')] \<noteq> []
   \<and> (\<exists>key \<in> set (map fst [(''titel'', JStr ''a''), (''foo'', JStr ''bar'')]). \<not> recognized key)
   \<and> find_serie ''postgres'' (Some [(''titel'', JStr ''a''), (''foo'', JStr ''bar'')]) pageable5 corpus
       = Inl (NotFoundException UngueltigeSuchkriterien)
   \<and> [(''art'', JStr ''KINO'')] \<noteq> []
   \<and> get_prop [(''art'', JStr ''KINO'')] ''art'' \<notin> {JUndef, JStr ''STREAM'', JStr ''TV'', JStr ''DVD''}
   \<and> find_serie ''postgres'' (Some [(''art'', JStr ''KINO'')]) pageable5 corpus
       = Inl (NotFoundException UngueltigeSuchkriterien)"
proof -
  have a: "\<exists>key \<in> set (map fst [(''titel'', JStr ''a''), (''foo'', JStr ''bar'')]). \<not> recognized key"
    by (simp add: recognized_def serieProps_def)
  have b: "get_prop [(''art'', JStr ''KINO'')] ''art'' \<notin> {JUndef, JStr ''STREAM'', JStr ''TV'', JStr ''DVD''}"
    by (simp add: get_prop_def)
  show ?thesis
    using a b
      find_invalid_criteria [of "[(''titel'', JStr ''a''), (''foo'', JStr ''bar'')]" "''postgres''" pageable5 corpus]
      find_invalid_criteria [of "[(''art'', JStr ''KINO'')]" "''postgres''" pageable5 corpus]
    by blast
qed

text \<open>The error for a key that is not recognized is a \<open>NotFoundException\<close>, the
  exception that \<open>find\<close> also throws when valid criteria match no row.\<close>

theorem find_invalid_criteria_counterexample:
  "find_serie ''postgres'' (Some [(''foo'', JStr ''bar'')]) pageable5 corpus
     = Inl (NotFoundException UngueltigeSuchkriterien)
   \<and> find_serie ''postgres'' (Some [(''titel'', JStr ''xx'')]) pageable5 corpus
     = Inl (NotFoundException (KeineBuecherGefunden [(''titel'', JStr ''xx'')] 0))"
  by code_simp

section \<open>Writing: \<open>delete\<close>\<close>

lemma delete_serie_absent:
  "findById i False d = Inl e \<Longrightarrow> delete_serie i d = (Inl e, d)"
  by (simp add: delete_serie_def)

lemma delete_serie_no_row:
  assumes "i \<notin> row_id ` set (serie_tab d)"
  shows "delete_serie i d = (Inl (NotFoundException (KeineSerieMitId (Some i))), d)"
proof -
  have "selected_rows (buildId i False) d = []"
    using assms selected_rows_buildId [of i False d]
    by (cases "selected_rows (buildId i False) d") auto
  then have "findById i False d = Inl (NotFoundException (KeineSerieMitId (Some i)))"
    by (simp add: findById_def getOne_def)
  then show ?thesis by (rule delete_serie_absent)
qed

lemma delete_stmts_no_cover: "Delete CoverTable c \<notin> set (delete_stmts serie i)"
  by (auto simp: delete_stmts_def abbildungen_def split: option.splits)

text \<open>
  C4 asks that \<open>delete\<close> of an id without a series returns \<open>false\<close>. Deleting the series
  \<open>Zeta\<close> returns \<open>true\<close>; deleting it a second time throws the \<open>NotFoundException\<close> of
  \<open>findById\<close>.
\<close>

theorem delete_twice:
  "delete_serie 2 corpus
     = (Inr True, corpus\<lparr> serie_tab := [serie_alpha], titel_tab := [titel_alpha] \<rparr>)
   \<and> delete_serie 2 (corpus\<lparr> serie_tab := [serie_alpha], titel_tab := [titel_alpha] \<rparr>)
     = (Inl (NotFoundException (KeineSerieMitId (Some 2))),
        corpus\<lparr> serie_tab := [serie_alpha], titel_tab := [titel_alpha] \<rparr>)"
  by code_simp

theorem delete_twice_witness:
  "delete_serie 2 corpus
     = (Inr True, corpus\<lparr> serie_tab := [serie_alpha], titel_tab := [titel_alpha] \<rparr>)"
  by (rule conjunct1 [OF delete_twice])

text \<open>
  C5 asks that \<open>delete\<close> removes the rows of \<open>cover\<close> of the series. For the series
  \<open>Alpha\<close>, which has a cover, the transaction holds no statement on table \<open>cover\<close>:
  with the foreign keys declared the deletion of the row of \<open>serie\<close> is refused and
  nothing is removed; without them the row of \<open>cover\<close> stays behind.
\<close>

theorem delete_leaves_cover:
  "findById 1 False corpus = Inr entity_alpha
   \<and> delete_stmts entity_alpha 1 = [Delete TitelTable (Some 10), Delete SerieTable (Some 1)]
   \<and> delete_serie 1 corpus = (Inl QueryFailedError, corpus)
   \<and> delete_serie 1 (corpus\<lparr> foreign_keys := False \<rparr>)
     = (Inr True, corpus\<lparr> foreign_keys := False, serie_tab := [serie_zeta],
                            titel_tab := [titel_zeta], cover_tab := [cover_alpha] \<rparr>)"
  by code_simp

theorem delete_leaves_cover_witness:
  "findById 1 False corpus = Inr entity_alpha"
  by (rule conjunct1 [OF delete_leaves_cover])

section \<open>Writing: the check before \<open>create\<close>\<close>

lemma validateCreate_ignores_seriennummer:
  "validateCreate (serie\<lparr> seriennummer := x \<rparr>) d = validateCreate serie d"
  unfolding validateCreate_def isbn_def by simp

text \<open>
  C8 asks that the check passes when the serial number of the payload is not stored.
  The check reads \<open>isbn\<close>, which the entity does not have, so its condition is empty: the
  payload with the new serial number \<open>SER-000003\<close> is refused with
  \<open>IsbnExistsException\<close> because the store holds some series.
\<close>

theorem validateCreate_rejects_new_seriennummer:
  "seriennummer payload = Some ''SER-000003''
   \<and> map row_seriennummer (serie_tab corpus) = [''SER-000001'', ''SER-000002'']
   \<and> validateCreate payload corpus = Inl (IsbnExistsException None)"
  by code_simp

theorem validateCreate_rejects_new_seriennummer_witness:
  "seriennummer payload = Some ''SER-000003''"
  by (rule conjunct1 [OF validateCreate_rejects_new_seriennummer])

section \<open>Writing: the version check of \<open>update\<close>\<close>








text \<open>What the \<open>UPDATE\<close> writes when the merged entity comes from the stored row: a
  column takes the value of the payload where the payload defines one and keeps the stored
  value otherwise; the version column is the stored version plus one.\<close>

lemma update_row_merge:
  assumes "stored = normalize_schlagwoerter (hydrate q d (r, t))"
  shows "row_id (update_row (repo_merge stored p) r) = row_id r"
    and "row_version (update_row (repo_merge stored p) r) = row_version r + 1"
    and "row_seriennummer (update_row (repo_merge stored p) r)
           = (case seriennummer p of None \<Rightarrow> row_seriennummer r | Some v \<Rightarrow> v)"
    and "row_rating (update_row (repo_merge stored p) r)
           = (case rating p of None \<Rightarrow> row_rating r | Some v \<Rightarrow> v)"
    and "row_art (update_row (repo_merge stored p) r)
           = (case art p of None \<Rightarrow> row_art r | Some v \<Rightarrow> Some v)"
    and "row_preis (update_row (repo_merge stored p) r)
           = (case preis p of None \<Rightarrow> row_preis r | Some v \<Rightarrow> v)"
    and "row_rabatt (update_row (repo_merge stored p) r)
           = (case rabatt p of None \<Rightarrow> row_rabatt r | Some v \<Rightarrow> v)"
    and "row_trailer (update_row (repo_merge stored p) r)
           = (case trailer p of None \<Rightarrow> row_trailer r | Some v \<Rightarrow> v)"
    and "row_datum (update_row (repo_merge stored p) r)
           = (case datum p of None \<Rightarrow> row_datum r | Some v \<Rightarrow> Some v)"
    and "row_homepage (update_row (repo_merge stored p) r)
           = (case homepage p of None \<Rightarrow> row_homepage r | Some v \<Rightarrow> Some v)"
  using assms
  by (simp_all add: update_row_def repo_merge_def merge_opt_def normalize_schlagwoerter_def
      hydrate_def hydrate_serie_def split: option.splits)



text \<open>The scenario of the specification: after an update with token \<open>"2"\<close> at stored
  version 2, the same token is outdated; a token above the stored version is accepted.\<close>

lemma update_scenario:
  "fst (update_serie (Some 1) payload (quoted ''2'')
          (snd (update_serie (Some 1) payload (quoted ''2'') corpus)))
     = Inl (VersionOutdatedException (Fin 2))
   \<and> fst (update_serie (Some 1) payload (quoted ''7'') corpus) = Inr (Some 3)"
  by code_simp

section \<open>Building the query: the clauses of \<open>build\<close>\<close>

lemma build_stages:
  "build dbType sk pageable =
     (let queryBuilder = fst (rest_stage sk (keyword_stage sk (filter_stage dbType sk)))
      in if page_size pageable = 0 then queryBuilder
         else skip_rows (take_rows queryBuilder (page_size pageable))
                (page_number pageable * page_size pageable))"
  by (simp add: build_def filter_stage_def keyword_stage_def rest_stage_def Let_def)

lemma wheres_build:
  "wheres (build dbType sk pageable)
     = wheres (fst (rest_stage sk (keyword_stage sk (filter_stage dbType sk))))"
  by (simp add: build_stages Let_def skip_rows_def take_rows_def)

lemma joins_build: "InnerJoinTitel \<in> set (joins (build dbType sk pageable))"
proof -
  have w: "\<And>st c. joins (fst (where_or_andWhere st c)) = joins (fst st)"
    by (simp add: where_or_andWhere_def where_clause_def andWhere_def)
  have f: "joins (fst (filter_stage dbType sk)) = [InnerJoinTitel]"
    by (simp add: filter_stage_def Let_def where_clause_def innerJoinAndSelect_def
        createQueryBuilder_def)
  have k: "\<And>st. joins (fst (keyword_stage sk st)) = joins (fst st)"
    by (simp add: keyword_stage_def Let_def w)
  have r: "\<And>st xs. joins (fst (foldl (\<lambda>st (key, value). where_or_andWhere st (PropEq key value)) st xs))
              = joins (fst st)"
  proof -
    fix st :: "query \<times> bool" and xs :: Suchkriterien
    show "joins (fst (foldl (\<lambda>st (key, value). where_or_andWhere st (PropEq key value)) st xs))
              = joins (fst st)"
      by (induction xs arbitrary: st) (auto simp: w)
  qed
  show ?thesis
    by (simp add: build_stages Let_def skip_rows_def take_rows_def rest_stage_def r k f)
qed

lemma where_or_andWhere_mem:
  "c \<in> set (wheres (fst (where_or_andWhere st c)))"
  "\<not> snd (where_or_andWhere st c)"
  "\<not> snd st \<Longrightarrow> x \<in> set (wheres (fst st)) \<Longrightarrow> x \<in> set (wheres (fst (where_or_andWhere st c)))"
  "x \<in> set (wheres (fst (where_or_andWhere st c))) \<Longrightarrow> x = c \<or> x \<in> set (wheres (fst st))"
  by (auto simp: where_or_andWhere_def where_clause_def andWhere_def split: if_splits)

lemma fold_props_keeps:
  "\<not> snd st \<Longrightarrow> x \<in> set (wheres (fst st)) \<Longrightarrow>
     x \<in> set (wheres (fst (foldl (\<lambda>st (key, value). where_or_andWhere st (PropEq key value)) st xs)))"
proof (induction xs arbitrary: st)
  case Nil
  then show ?case by simp
next
  case (Cons a xs)
  obtain k v where a: "a = (k, v)" by (cases a)
  show ?case
    using Cons.IH [of "where_or_andWhere st (PropEq k v)"] Cons.prems a
    by (simp add: where_or_andWhere_mem)
qed

lemma fold_props_clauses:
  "x \<in> set (wheres (fst (foldl (\<lambda>st (key, value). where_or_andWhere st (PropEq key value)) st xs)))
     \<Longrightarrow> x \<in> set (wheres (fst st)) \<or> (\<exists>k v. x = PropEq k v)"
proof (induction xs arbitrary: st)
  case Nil
  then show ?case by simp
next
  case (Cons a xs)
  obtain k v where a: "a = (k, v)" by (cases a)
  from Cons.IH [of "where_or_andWhere st (PropEq k v)"] Cons.prems a
  have "x \<in> set (wheres (fst (where_or_andWhere st (PropEq k v)))) \<or> (\<exists>k v. x = PropEq k v)"
    by simp
  then show ?case using where_or_andWhere_mem(4) by blast
qed

lemma rest_stage_keeps:
  "\<not> snd st \<Longrightarrow> x \<in> set (wheres (fst st)) \<Longrightarrow> x \<in> set (wheres (fst (rest_stage sk st)))"
  unfolding rest_stage_def by (rule fold_props_keeps)

lemma rest_stage_clauses:
  "x \<in> set (wheres (fst (rest_stage sk st))) \<Longrightarrow>
     x \<in> set (wheres (fst st)) \<or> (\<exists>k v. x = PropEq k v)"
  unfolding rest_stage_def by (rule fold_props_clauses)


lemma keyword_stage_clauses:
  "x \<in> set (wheres (fst (keyword_stage sk st))) \<Longrightarrow>
     x \<in> set (wheres (fst st)) \<or> (\<exists>p. x = SchlagwoerterLike p)
     \<or> (\<exists>a b p. x = ReplaceSchlagwoerterLike a b p)"
  unfolding keyword_stage_def Let_def
  by (auto split: if_splits dest!: where_or_andWhere_mem(4))

lemma keyword_stage_java:
  assumes "get_prop sk ''java'' = JStr ''true''"
  shows "ReplaceSchlagwoerterLike ''JAVASCRIPT'' [] ''%JAVA%''
           \<in> set (wheres (fst (keyword_stage sk st)))
         \<and> \<not> snd (keyword_stage sk st)"
  using assms by (simp add: keyword_stage_def Let_def where_or_andWhere_mem)



lemma selected_rows_clause:
  "c \<in> set (wheres q) \<Longrightarrow> rt \<in> set (selected_rows q d) \<Longrightarrow> holds c (fst rt) (snd rt)"
  by (auto simp: selected_rows_def list_all_iff)

section \<open>Building the query: \<open>where\<close> after \<open>where\<close>\<close>

text \<open>When the criteria give \<open>rating\<close> as a number, no clause on the title is left in
  the query, whatever \<open>titel\<close> is.\<close>

lemma filter_stage_titel:
  assumes "TitelLike ci p \<in> set (wheres (fst (filter_stage dbType sk)))"
  shows "(get_prop sk ''rating'' = JUndef
          \<or> isNaN (case get_prop sk ''rating'' of JStr s \<Rightarrow> JNum (parseInt s None) | v \<Rightarrow> v))
         \<and> \<not> is_string (get_prop sk ''preis'')"
  using assms unfolding filter_stage_def Let_def
  by (auto simp: where_clause_def innerJoinAndSelect_def createQueryBuilder_def is_string_def
      split: if_splits)

lemma build_rating_drops_titel:
  assumes "get_prop sk ''rating'' = JNum (Fin q)"
  shows "TitelLike ci p \<notin> set (wheres (build dbType sk pageable))"
proof
  assume "TitelLike ci p \<in> set (wheres (build dbType sk pageable))"
  then have "TitelLike ci p \<in> set (wheres (fst (keyword_stage sk (filter_stage dbType sk))))"
    unfolding wheres_build using rest_stage_clauses by blast
  then have "TitelLike ci p \<in> set (wheres (fst (filter_stage dbType sk)))"
    using keyword_stage_clauses by blast
  from filter_stage_titel [OF this] assms show False
    by (simp add: isNaN_def ToNumber_def)
qed

text \<open>The scenario of the specification, \<open>{titel: 'a', rating: 3}\<close>: only \<open>Alpha\<close> is
  returned, both titles containing \<open>a\<close>.\<close>

lemma build_scenario:
  "map_sum id (map id_serie \<circ> content)
     (find_serie ''postgres'' (Some [(''titel'', JStr ''a''), (''rating'', JNum (Fin 3))])
        pageable5 corpus)
     = Inr [Some 1]"
  by code_simp

text \<open>
  C1 asks for the conjunction of all filters. For the criteria \<open>{titel: 'z', rating: 3}\<close>
  the clause for \<open>rating\<close> is set with \<open>where\<close> and replaces the clause for \<open>titel\<close>:
  the query keeps the one condition on the rating, and \<open>find\<close> returns the series
  \<open>Alpha\<close>, whose title does not contain \<open>z\<close>.
\<close>

theorem build_rating_replaces_titel:
  "wheres (build ''postgres'' [(''titel'', JStr ''z''), (''rating'', JNum (Fin 3))] pageable5)
     = [RatingGe (JNum (Fin 3))]
   \<and> map_sum id (map id_serie \<circ> content)
        (find_serie ''postgres'' (Some [(''titel'', JStr ''z''), (''rating'', JNum (Fin 3))])
           pageable5 corpus)
     = Inr [Some 1]
   \<and> \<not> holds (TitelLike True ''%z%'') serie_alpha (Some titel_alpha)"
  by code_simp

theorem build_rating_replaces_titel_witness:
  "wheres (build ''postgres'' [(''titel'', JStr ''z''), (''rating'', JNum (Fin 3))] pageable5)
     = [RatingGe (JNum (Fin 3))]"
  by (rule conjunct1 [OF build_rating_replaces_titel])

section \<open>Building the query: the shortcut \<open>java\<close>\<close>

lemma java_clause_javascript_only:
  "row_schlagwoerter r = Some (simpleArrayToString [''JAVASCRIPT'']) \<Longrightarrow> \<not> holds java_clause r t"
  by (simp add: java_clause_def REPLACE_def)

lemma java_clause_both:
  "row_schlagwoerter r = Some (simpleArrayToString [''JAVA'', ''JAVASCRIPT''])
   \<or> row_schlagwoerter r = Some (simpleArrayToString [''JAVASCRIPT'', ''JAVA''])
   \<Longrightarrow> holds java_clause r t"
  by (auto simp: java_clause_def REPLACE_def)

lemma build_java_clause:
  assumes "get_prop sk ''java'' = JStr ''true''"
  shows "java_clause \<in> set (wheres (build dbType sk pageable))"
  unfolding wheres_build java_clause_def
  using keyword_stage_java [OF assms] rest_stage_keeps by blast

lemma wheres_build_java_only:
  "wheres (build dbType [(''java'', JStr ''true'')] pageable) = [java_clause]"
  unfolding wheres_build java_clause_def
  by (simp add: rest_stage_def restProps_def keyword_stage_def filter_stage_def Let_def
      get_prop_def where_or_andWhere_def where_clause_def is_string_def)

lemma split_comma_nonempty: "split_comma acc s \<noteq> []"
  by (induction s arbitrary: acc) auto

lemma split_comma_single: "split_comma acc s = [w] \<Longrightarrow> w = rev acc @ s"
proof (induction s arbitrary: acc)
  case Nil
  then show ?case by simp
next
  case (Cons c cs)
  show ?case
  proof (cases "c = CHR '',''")
    case True
    with Cons.prems have "split_comma [] cs = []" by simp
    then show ?thesis using split_comma_nonempty by blast
  next
    case False
    with Cons.prems have "split_comma (c # acc) cs = [w]" by simp
    from Cons.IH [OF this] show ?thesis by simp
  qed
qed

lemma stringToSimpleArray_single:
  "stringToSimpleArray s = [w] \<Longrightarrow> s = w"
  by (auto simp: stringToSimpleArray_def split: if_splits dest: split_comma_single)

lemma set_paginate: "set (paginate q xs) \<subseteq> set xs"
proof -
  have "set (case skip_offset q of None \<Rightarrow> xs | Some k \<Rightarrow> drop k xs) \<subseteq> set xs"
    by (cases "skip_offset q") (auto dest: in_set_dropD)
  then show ?thesis
    unfolding paginate_def Let_def
    by (cases "take_limit q") (auto dest: in_set_takeD)
qed

lemma getMany_selected:
  "s \<in> set (getMany q d) \<Longrightarrow> \<exists>rt \<in> set (selected_rows q d). s = hydrate q d rt"
  using set_paginate [of q "selected_rows q d"] by (auto simp: getMany_def)

lemma find_serie_criteria_Inr:
  "find_serie dbType (Some sk) pageable d = Inr sl \<Longrightarrow> sk \<noteq> [] \<Longrightarrow>
     sl = createSlice (getMany (build dbType sk pageable) d)
            (getCount (build dbType sk pageable) d)"
  by (auto simp: find_serie_def Let_def split: if_splits)

lemma content_selected:
  "s \<in> set (content (createSlice (getMany q d) n)) \<Longrightarrow>
     \<exists>rt \<in> set (selected_rows q d). s = normalize_schlagwoerter (hydrate q d rt)"
  by (auto simp: createSlice_def dest!: getMany_selected)

lemma java_results:
  assumes java: "get_prop sk ''java'' = JStr ''true''"
    and res: "find_serie dbType (Some sk) pageable d = Inr sl"
    and s: "s \<in> set (content sl)"
  shows "schlagwoerter s \<noteq> Value [''JAVASCRIPT'']"
proof
  assume v: "schlagwoerter s = Value [''JAVASCRIPT'']"
  have "sk \<noteq> []" using java by (auto simp: get_prop_def)
  from find_serie_criteria_Inr [OF res this] s content_selected
  obtain rt where rt: "rt \<in> set (selected_rows (build dbType sk pageable) d)"
    and sh: "s = normalize_schlagwoerter (hydrate (build dbType sk pageable) d rt)"
    by blast
  from v sh obtain kw where t: "row_schlagwoerter (fst rt) = Some kw"
    and a: "stringToSimpleArray kw = [''JAVASCRIPT'']"
    by (auto simp: schlagwoerter_normalize_hydrate split: option.splits)
  from stringToSimpleArray_single [OF a] t
  have "row_schlagwoerter (fst rt) = Some (simpleArrayToString [''JAVASCRIPT''])" by simp
  moreover have "holds java_clause (fst rt) (snd rt)"
    using build_java_clause [OF java] rt by (rule selected_rows_clause)
  ultimately show False using java_clause_javascript_only by blast
qed

text \<open>
  C7. When the criteria have \<open>java\<close> set to \<open>'true'\<close>, the query of \<open>build\<close> holds the
  clause \<open>REPLACE(serie.schlagwoerter, 'JAVASCRIPT', '') like '%JAVA%'\<close>, whatever the other
  criteria are. So no row the query selects is tagged with \<open>JAVASCRIPT\<close> only, and no
  series in the content of a result of \<open>find\<close> has \<open>JAVASCRIPT\<close> as its only keyword.
  A row tagged with \<open>JAVA\<close> and \<open>JAVASCRIPT\<close>, in either order, that has its row of
  \<open>titel\<close> is selected when \<open>java\<close> is the only criterion.
\<close>

theorem java_shortcut_strips_javascript:
  assumes java: "get_prop sk ''java'' = JStr ''true''"
  shows "java_clause \<in> set (wheres (build dbType sk pageable))
     \<and> (\<forall>rt \<in> set (selected_rows (build dbType sk pageable) d).
           row_schlagwoerter (fst rt) \<noteq> Some (simpleArrayToString [''JAVASCRIPT'']))
     \<and> (find_serie dbType (Some sk) pageable d = Inr sl \<longrightarrow>
           (\<forall>s \<in> set (content sl). schlagwoerter s \<noteq> Value [''JAVASCRIPT'']))
     \<and> (sk = [(''java'', JStr ''true'')] \<and> r \<in> set (serie_tab d) \<and> tr \<in> set (titel_tab d)
          \<and> titel_row_serie_id tr = row_id r
          \<and> (row_schlagwoerter r = Some (simpleArrayToString [''JAVA'', ''JAVASCRIPT''])
               \<or> row_schlagwoerter r = Some (simpleArrayToString [''JAVASCRIPT'', ''JAVA'']))
          \<longrightarrow> (r, Some tr) \<in> set (selected_rows (build dbType sk pageable) d))"
proof (intro conjI ballI impI)
  show c: "java_clause \<in> set (wheres (build dbType sk pageable))"
    using java by (rule build_java_clause)
  fix rt assume "rt \<in> set (selected_rows (build dbType sk pageable) d)"
  with c have "holds java_clause (fst rt) (snd rt)" by (rule selected_rows_clause)
  then show "row_schlagwoerter (fst rt) \<noteq> Some (simpleArrayToString [''JAVASCRIPT''])"
    using java_clause_javascript_only by blast
next
  fix s assume "find_serie dbType (Some sk) pageable d = Inr sl" and "s \<in> set (content sl)"
  with java show "schlagwoerter s \<noteq> Value [''JAVASCRIPT'']" by (rule java_results)
next
  assume h: "sk = [(''java'', JStr ''true'')] \<and> r \<in> set (serie_tab d) \<and> tr \<in> set (titel_tab d)
          \<and> titel_row_serie_id tr = row_id r
          \<and> (row_schlagwoerter r = Some (simpleArrayToString [''JAVA'', ''JAVASCRIPT''])
               \<or> row_schlagwoerter r = Some (simpleArrayToString [''JAVASCRIPT'', ''JAVA'']))"
  then have hc: "holds java_clause r (Some tr)" using java_clause_both by blast
  have j: "(r, Some tr) \<in> set (joined_rows (build dbType sk pageable) d)"
    using h joins_build [of dbType sk pageable] by (auto simp: joined_rows_def)
  show "(r, Some tr) \<in> set (selected_rows (build dbType sk pageable) d)"
    using j hc h by (simp add: selected_rows_def wheres_build_java_only)
qed

theorem java_shortcut_strips_javascript_witness:
  "get_prop [(''java'', JStr ''true'')] ''java'' = JStr ''true''
   \<and> serie_alpha \<in> set (serie_tab keyword_store) \<and> titel_alpha \<in> set (titel_tab keyword_store)
   \<and> titel_row_serie_id titel_alpha = row_id serie_alpha
   \<and> row_schlagwoerter serie_alpha = Some (simpleArrayToString [''JAVA'', ''JAVASCRIPT''])
   \<and> row_schlagwoerter serie_omega = Some (simpleArrayToString [''JAVASCRIPT''])
   \<and> find_serie ''postgres'' (Some [(''java'', JStr ''true'')]) pageable5 keyword_store
       = Inr java_slice
   \<and> map id_serie (content java_slice) = [Some 1]
   \<and> java_clause \<in> set (wheres (build ''postgres'' [(''java'', JStr ''true'')] pageable5))
   \<and> list_all (\<lambda>s. schlagwoerter s \<noteq> Value [''JAVASCRIPT'']) (content java_slice)
   \<and> (serie_alpha, Some titel_alpha)
        \<in> set (selected_rows (build ''postgres'' [(''java'', JStr ''true'')] pageable5) keyword_store)
   \<and> (serie_omega, Some titel_omega)
        \<notin> set (selected_rows (build ''postgres'' [(''java'', JStr ''true'')] pageable5) keyword_store)"
proof -
  have a: "get_prop [(''java'', JStr ''true'')] ''java'' = JStr ''true''"
    by (simp add: get_prop_def)
  have b: "serie_alpha \<in> set (serie_tab keyword_store)" "titel_alpha \<in> set (titel_tab keyword_store)"
    "titel_row_serie_id titel_alpha = row_id serie_alpha"
    "row_schlagwoerter serie_alpha = Some (simpleArrayToString [''JAVA'', ''JAVASCRIPT''])"
    "row_schlagwoerter serie_omega = Some (simpleArrayToString [''JAVASCRIPT''])"
    by (simp_all add: keyword_store_def serie_alpha_def titel_alpha_def serie_omega_def)
  have f: "find_serie ''postgres'' (Some [(''java'', JStr ''true'')]) pageable5 keyword_store
       = Inr java_slice" by code_simp
  have ids: "map id_serie (content java_slice) = [Some 1]" by code_simp
  from java_shortcut_strips_javascript [OF a, of "''postgres''" pageable5 keyword_store
      java_slice serie_alpha titel_alpha] b f ids
  show ?thesis unfolding list_all_iff using a by fastforce
qed

section \<open>Building the query: the clause for \<open>preis\<close>\<close>



end
